theory Spec2Isabelle
  imports Main
begin

section \<open>Scripted chat models of the supervisor demos\<close>

text \<open>
  The two stand-in chat models of the demo scripts replay a list of canned responses:
  \<^item> \<open>FakeChatModel\<close> (examples/simple\_demo.py) reads \<open>responses[idx]\<close> and then
    increments \<open>idx\<close>; past the end the read raises Python's IndexError;
  \<^item> \<open>MockChatModel\<close> (examples/demo\_supervisor.py) guards the read with
    \<open>current_index < len(responses)\<close> and otherwise answers with a fixed sentence.

  A method takes the object and returns the outcome together with the object after the
  call; an exception is the outcome \<open>Inl\<close>, and the object returned with it is the
  object as the exception left it. The classes of the chat framework that the methods
  only pass around (messages, callback managers) are type parameters.
\<close>

subsection \<open>Python values\<close>

datatype error = IndexError

text \<open>
  \<open>xs[i]\<close> on a Python sequence: an index from \<open>-len(xs)\<close> up to \<open>len(xs) - 1\<close> is
  accepted, a negative one counting from the end; any other index raises IndexError.
\<close>

definition getitem :: "'a list \<Rightarrow> int \<Rightarrow> error + 'a" where
  "getitem xs i =
     (if 0 \<le> i \<and> i < int (length xs) then Inr (xs ! nat i)
      else if i < 0 \<and> - int (length xs) \<le> i then Inr (xs ! nat (int (length xs) + i))
      else Inl IndexError)"

datatype 'm ChatGeneration = ChatGeneration (message: 'm)

datatype 'm ChatResult = ChatResult (generations: "'m ChatGeneration list")

datatype AIMessage = AIMessage (content: string)

subsection \<open>FakeChatModel\<close>

text \<open>
  The class declares the fields \<open>idx: int = 0\<close> and \<open>responses: Sequence[BaseMessage]\<close>;
  the fields inherited from the framework's base class are the extension of the record.
\<close>

record 'm FakeChatModel =
  idx :: int
  responses :: "'m list"

text \<open>
  The class has no constructor of its own: the generated one takes the fields by
  keyword, \<open>responses\<close> required and \<open>idx\<close> defaulting to 0. The demos pass
  \<open>responses\<close> only.
\<close>

definition FakeChatModel_init :: "'m list \<Rightarrow> int option \<Rightarrow> 'm FakeChatModel" where
  "FakeChatModel_init rs idx_kw =
     \<lparr>idx = (case idx_kw of None \<Rightarrow> 0 | Some i \<Rightarrow> i), responses = rs\<rparr>"

text \<open>
  \<^verbatim>\<open>
  def _generate(self, messages, stop=None, run_manager=None, **kwargs):
      generation = ChatGeneration(message=self.responses[self.idx])
      self.idx += 1
      return ChatResult(generations=[generation])
  \<close>
  The read comes first: when it raises, the increment has not run.
\<close>

definition FakeChatModel_generate ::
  "('m, 'z) FakeChatModel_scheme \<Rightarrow> 'm list \<Rightarrow> string list option \<Rightarrow> 'cb option \<Rightarrow> 'kw
     \<Rightarrow> (error + 'm ChatResult) \<times> ('m, 'z) FakeChatModel_scheme" where
  "FakeChatModel_generate self messages stop run_manager kwargs =
     (case getitem (FakeChatModel.responses self) (idx self) of
        Inl e \<Rightarrow> (Inl e, self)
      | Inr m \<Rightarrow>
          (let generation = ChatGeneration m;
               self' = self\<lparr>idx := idx self + 1\<rparr>
           in (Inr (ChatResult [generation]), self')))"

text \<open>Successive calls on one object, each with its own arguments; the caller keeps
  going after an exception, so every outcome is recorded.\<close>

fun FakeChatModel_calls ::
  "('m list \<times> string list option \<times> 'cb option \<times> 'kw) list \<Rightarrow> ('m, 'z) FakeChatModel_scheme
     \<Rightarrow> (error + 'm ChatResult) list \<times> ('m, 'z) FakeChatModel_scheme" where
  "FakeChatModel_calls [] self = ([], self)"
| "FakeChatModel_calls ((messages, stop, run_manager, kwargs) # cs) self =
     (case FakeChatModel_generate self messages stop run_manager kwargs of
        (r, self') \<Rightarrow>
          (case FakeChatModel_calls cs self' of (rs, self'') \<Rightarrow> (r # rs, self'')))"

subsection \<open>MockChatModel\<close>

record MockChatModel =
  responses :: "string list"
  current_index :: int

text \<open>
  \<^verbatim>\<open>
  def __init__(self, responses, **kwargs):
      super().__init__(responses=responses, current_index=0, **kwargs)
  \<close>
  There is no check of the list: an empty one is accepted (it is also the field's default).
\<close>

definition MockChatModel_init :: "string list \<Rightarrow> MockChatModel" where
  "MockChatModel_init rs = \<lparr>responses = rs, current_index = 0\<rparr>"

definition no_more_responses :: string where
  "no_more_responses = ''I don't have more responses configured.''"

text \<open>
  \<^verbatim>\<open>
  def _generate(self, messages, stop=None, run_manager=None, **kwargs):
      if self.current_index < len(self.responses):
          response = self.responses[self.current_index]
          self.current_index += 1
      else:
          response = "I don't have more responses configured."
      message = AIMessage(content=response)
      generation = ChatGeneration(message=message)
      return ChatResult(generations=[generation])
  \<close>
\<close>

definition MockChatModel_generate ::
  "'z MockChatModel_scheme \<Rightarrow> 'h list \<Rightarrow> string list option \<Rightarrow> 'cb option \<Rightarrow> 'kw
     \<Rightarrow> (error + AIMessage ChatResult) \<times> 'z MockChatModel_scheme" where
  "MockChatModel_generate self messages stop run_manager kwargs =
     (let finish = (\<lambda>response self'.
            (let message = AIMessage response;
                 generation = ChatGeneration message
             in (Inr (ChatResult [generation]), self')))
      in if current_index self < int (length (responses self)) then
           (case getitem (responses self) (current_index self) of
              Inl e \<Rightarrow> (Inl e, self)
            | Inr response \<Rightarrow> finish response (self\<lparr>current_index := current_index self + 1\<rparr>))
         else finish no_more_responses self)"

fun MockChatModel_calls ::
  "('h list \<times> string list option \<times> 'cb option \<times> 'kw) list \<Rightarrow> 'z MockChatModel_scheme
     \<Rightarrow> (error + AIMessage ChatResult) list \<times> 'z MockChatModel_scheme" where
  "MockChatModel_calls [] self = ([], self)"
| "MockChatModel_calls ((messages, stop, run_manager, kwargs) # cs) self =
     (case MockChatModel_generate self messages stop run_manager kwargs of
        (r, self') \<Rightarrow>
          (case MockChatModel_calls cs self' of (rs, self'') \<Rightarrow> (r # rs, self'')))"

text \<open>What a caller receives for a script entry.\<close>

abbreviation fake_reply :: "'m \<Rightarrow> error + 'm ChatResult" where
  "fake_reply m \<equiv> Inr (ChatResult [ChatGeneration m])"

abbreviation mock_reply :: "string \<Rightarrow> error + AIMessage ChatResult" where
  "mock_reply s \<equiv> Inr (ChatResult [ChatGeneration (AIMessage s)])"

subsection \<open>Objects, references and tool binding\<close>

text \<open>
  Model objects are mutable and are passed by reference: the agents of a demo each hold
  their own instance, and \<open>bind_tools\<close> hands out a second way to reach an instance.
  The heap is the list of objects created so far, and a reference is a position in it.
\<close>

type_synonym ref = nat

type_synonym 'o heap = "'o list"

definition new_object :: "'o \<Rightarrow> 'o heap \<Rightarrow> ref \<times> 'o heap" where
  "new_object obj h = (length h, h @ [obj])"

text \<open>A method call through a reference writes the object back in place; a reference
  to nothing (which Python cannot produce) gives \<open>None\<close>.\<close>

definition call_method :: "ref \<Rightarrow> ('o \<Rightarrow> 'r \<times> 'o) \<Rightarrow> 'o heap \<Rightarrow> ('r \<times> 'o heap) option" where
  "call_method a m h =
     (if a < length h then (case m (h ! a) of (r, obj') \<Rightarrow> Some (r, h[a := obj']))
      else None)"

text \<open>A tool handed to \<open>bind_tools\<close> is a \<open>BaseTool\<close> with a name, or anything else
  (a dict, a type, a callable), of which the code only takes \<open>str(tool)\<close>.\<close>

datatype tool = BaseTool (name: string) | OtherTool (str: string)

type_synonym tool_dict = "(string \<times> string) list"

type_synonym bound_kwargs = "(string \<times> tool_dict list) list"

text \<open>What \<open>bind_tools\<close> returns: the model itself, or the framework's binding of a
  model to keyword arguments.\<close>

datatype runnable = Model ref | RunnableBinding (bound: ref) (bound_kwargs: bound_kwargs)

text \<open>
  \<^verbatim>\<open>
  def bind_tools(self, tools, **kwargs):
      tool_dicts = [
          {"name": tool.name if isinstance(tool, BaseTool) else str(tool)}
          for tool in tools
      ]
      return self.bind(tools=tool_dicts)
  \<close>
  \<open>self.bind\<close> builds the binding object; no field of \<open>self\<close> is assigned.
\<close>

definition FakeChatModel_bind_tools ::
  "ref \<Rightarrow> tool list \<Rightarrow> 'kw \<Rightarrow> 'o heap \<Rightarrow> runnable \<times> 'o heap" where
  "FakeChatModel_bind_tools self tools kwargs h =
     (let tool_dicts =
            map (\<lambda>tool. [(''name'', (case tool of BaseTool n \<Rightarrow> n | OtherTool s \<Rightarrow> s))]) tools
      in (RunnableBinding self [(''tools'', tool_dicts)], h))"

text \<open>
  \<^verbatim>\<open>
  def bind_tools(self, tools, **kwargs):
      # For demo purposes, just return self
      return self
  \<close>
\<close>

definition MockChatModel_bind_tools ::
  "ref \<Rightarrow> tool list \<Rightarrow> 'kw \<Rightarrow> 'o heap \<Rightarrow> runnable \<times> 'o heap" where
  "MockChatModel_bind_tools self tools kwargs h = (Model self, h)"

text \<open>
  Modelled from the spec: the framework's dispatch of a call on a handle is not part of
  the sources. The spec has the handle stand for "this model, with tools nominally bound",
  treated as the same generator: a call on a binding is the bound model's generate with
  the bound keyword arguments added, and a call on the model itself adds none.
\<close>

definition FakeChatModel_invoke ::
  "runnable \<Rightarrow> 'm list \<Rightarrow> string list option \<Rightarrow> 'cb option \<Rightarrow> ('m, 'z) FakeChatModel_scheme heap
     \<Rightarrow> ((error + 'm ChatResult) \<times> ('m, 'z) FakeChatModel_scheme heap) option" where
  "FakeChatModel_invoke r messages stop run_manager h =
     (case r of
        Model a \<Rightarrow>
          call_method a
            (\<lambda>self. FakeChatModel_generate self messages stop run_manager ([] :: bound_kwargs)) h
      | RunnableBinding a kw \<Rightarrow>
          call_method a (\<lambda>self. FakeChatModel_generate self messages stop run_manager kw) h)"

definition MockChatModel_invoke ::
  "runnable \<Rightarrow> 'h list \<Rightarrow> string list option \<Rightarrow> 'cb option \<Rightarrow> 'z MockChatModel_scheme heap
     \<Rightarrow> ((error + AIMessage ChatResult) \<times> 'z MockChatModel_scheme heap) option" where
  "MockChatModel_invoke r messages stop run_manager h =
     (case r of
        Model a \<Rightarrow>
          call_method a
            (\<lambda>self. MockChatModel_generate self messages stop run_manager ([] :: bound_kwargs)) h
      | RunnableBinding a kw \<Rightarrow>
          call_method a (\<lambda>self. MockChatModel_generate self messages stop run_manager kw) h)"

text \<open>Successive calls through one handle; \<open>None\<close> only for a reference to nothing.\<close>

fun FakeChatModel_invokes ::
  "runnable \<Rightarrow> ('m list \<times> string list option \<times> 'cb option) list
     \<Rightarrow> ('m, 'z) FakeChatModel_scheme heap
     \<Rightarrow> ((error + 'm ChatResult) list \<times> ('m, 'z) FakeChatModel_scheme heap) option" where
  "FakeChatModel_invokes r [] h = Some ([], h)"
| "FakeChatModel_invokes r ((messages, stop, run_manager) # cs) h =
     (case FakeChatModel_invoke r messages stop run_manager h of
        None \<Rightarrow> None
      | Some (x, h') \<Rightarrow>
          (case FakeChatModel_invokes r cs h' of
             None \<Rightarrow> None
           | Some (xs, h'') \<Rightarrow> Some (x # xs, h'')))"

fun MockChatModel_invokes ::
  "runnable \<Rightarrow> ('h list \<times> string list option \<times> 'cb option) list
     \<Rightarrow> 'z MockChatModel_scheme heap
     \<Rightarrow> ((error + AIMessage ChatResult) list \<times> 'z MockChatModel_scheme heap) option" where
  "MockChatModel_invokes r [] h = Some ([], h)"
| "MockChatModel_invokes r ((messages, stop, run_manager) # cs) h =
     (case MockChatModel_invoke r messages stop run_manager h of
        None \<Rightarrow> None
      | Some (x, h') \<Rightarrow>
          (case MockChatModel_invokes r cs h' of
             None \<Rightarrow> None
           | Some (xs, h'') \<Rightarrow> Some (x # xs, h'')))"

section \<open>Single calls\<close>

lemma getitem_inside:
  "0 \<le> i \<Longrightarrow> i < int (length xs) \<Longrightarrow> getitem xs i = Inr (xs ! nat i)"
  by (simp add: getitem_def)

lemma getitem_past_end:
  "int (length xs) \<le> i \<Longrightarrow> getitem xs i = Inl IndexError"
  by (simp add: getitem_def)

lemma fake_generate_inside:
  assumes "0 \<le> idx self" and "idx self < int (length (FakeChatModel.responses self))"
  shows "FakeChatModel_generate self messages stop run_manager kwargs =
           (fake_reply (FakeChatModel.responses self ! nat (idx self)),
            self\<lparr>idx := idx self + 1\<rparr>)"
  using assms by (simp add: FakeChatModel_generate_def getitem_inside)

lemma fake_generate_past_end:
  assumes "int (length (FakeChatModel.responses self)) \<le> idx self"
  shows "FakeChatModel_generate self messages stop run_manager kwargs = (Inl IndexError, self)"
  using assms by (simp add: FakeChatModel_generate_def getitem_past_end)

lemma mock_generate_inside:
  assumes "0 \<le> current_index self" and "current_index self < int (length (responses self))"
  shows "MockChatModel_generate self messages stop run_manager kwargs =
           (mock_reply (responses self ! nat (current_index self)),
            self\<lparr>current_index := current_index self + 1\<rparr>)"
  using assms by (simp add: MockChatModel_generate_def getitem_inside)

lemma mock_generate_past_end:
  assumes "int (length (responses self)) \<le> current_index self"
  shows "MockChatModel_generate self messages stop run_manager kwargs =
           (mock_reply no_more_responses, self)"
  using assms by (simp add: MockChatModel_generate_def)

section \<open>Replaying a script\<close>

text \<open>From a cursor \<open>i\<close> inside the script, as many calls as there are entries left
  return those entries in order and move the cursor by the number of calls.\<close>

lemma fake_calls_replay:
  assumes "0 \<le> idx self"
    and "idx self + int (length cs) \<le> int (length (FakeChatModel.responses self))"
  shows "FakeChatModel_calls cs self =
           (map fake_reply (take (length cs) (drop (nat (idx self)) (FakeChatModel.responses self))),
            self\<lparr>idx := idx self + int (length cs)\<rparr>)"
  using assms
proof (induction cs arbitrary: self)
  case Nil
  then show ?case by simp
next
  case (Cons c cs)
  obtain messages stop run_manager kwargs where c: "c = (messages, stop, run_manager, kwargs)"
    by (cases c) auto
  let ?rs = "FakeChatModel.responses self"
  let ?self' = "self\<lparr>idx := idx self + 1\<rparr>"
  from Cons.prems have inside: "0 \<le> idx self" "idx self < int (length ?rs)"
    by simp_all
  have step: "FakeChatModel_generate self messages stop run_manager kwargs =
                (fake_reply (?rs ! nat (idx self)), ?self')"
    by (rule fake_generate_inside [OF inside])
  have rest: "FakeChatModel_calls cs ?self' =
                (map fake_reply (take (length cs) (drop (nat (idx ?self')) ?rs)),
                 ?self'\<lparr>idx := idx ?self' + int (length cs)\<rparr>)"
    using Cons.IH [of ?self'] Cons.prems by simp
  have nat_suc: "nat (idx self + 1) = Suc (nat (idx self))"
    using inside by simp
  have lt: "nat (idx self) < length ?rs"
    using inside by simp
  have "take (Suc (length cs)) (drop (nat (idx self)) ?rs) =
          ?rs ! nat (idx self) # take (length cs) (drop (Suc (nat (idx self))) ?rs)"
    using lt by (simp add: Cons_nth_drop_Suc [symmetric])
  then show ?case
    using step rest by (simp add: c nat_suc add.assoc)
qed

lemma mock_calls_replay:
  assumes "0 \<le> current_index self"
    and "current_index self + int (length cs) \<le> int (length (responses self))"
  shows "MockChatModel_calls cs self =
           (map mock_reply (take (length cs) (drop (nat (current_index self)) (responses self))),
            self\<lparr>current_index := current_index self + int (length cs)\<rparr>)"
  using assms
proof (induction cs arbitrary: self)
  case Nil
  then show ?case by simp
next
  case (Cons c cs)
  obtain messages stop run_manager kwargs where c: "c = (messages, stop, run_manager, kwargs)"
    by (cases c) auto
  let ?rs = "responses self"
  let ?self' = "self\<lparr>current_index := current_index self + 1\<rparr>"
  from Cons.prems have inside: "0 \<le> current_index self" "current_index self < int (length ?rs)"
    by simp_all
  have step: "MockChatModel_generate self messages stop run_manager kwargs =
                (mock_reply (?rs ! nat (current_index self)), ?self')"
    by (rule mock_generate_inside [OF inside])
  have rest: "MockChatModel_calls cs ?self' =
                (map mock_reply (take (length cs) (drop (nat (current_index ?self')) ?rs)),
                 ?self'\<lparr>current_index := current_index ?self' + int (length cs)\<rparr>)"
    using Cons.IH [of ?self'] Cons.prems by simp
  have nat_suc: "nat (current_index self + 1) = Suc (nat (current_index self))"
    using inside by simp
  have lt: "nat (current_index self) < length ?rs"
    using inside by simp
  have "take (Suc (length cs)) (drop (nat (current_index self)) ?rs) =
          ?rs ! nat (current_index self) # take (length cs) (drop (Suc (nat (current_index self))) ?rs)"
    using lt by (simp add: Cons_nth_drop_Suc [symmetric])
  then show ?case
    using step rest by (simp add: c nat_suc add.assoc)
qed

section \<open>Calls past the end of the script\<close>

lemma fake_calls_append:
  "FakeChatModel_calls (cs @ ds) self =
     (case FakeChatModel_calls cs self of
        (rs, self') \<Rightarrow> (case FakeChatModel_calls ds self' of (rs', self'') \<Rightarrow> (rs @ rs', self'')))"
proof (induction cs arbitrary: self)
  case Nil
  then show ?case by (simp split: prod.splits)
next
  case (Cons c cs)
  then show ?case by (cases c) (simp split: prod.splits)
qed

lemma mock_calls_append:
  "MockChatModel_calls (cs @ ds) self =
     (case MockChatModel_calls cs self of
        (rs, self') \<Rightarrow> (case MockChatModel_calls ds self' of (rs', self'') \<Rightarrow> (rs @ rs', self'')))"
proof (induction cs arbitrary: self)
  case Nil
  then show ?case by (simp split: prod.splits)
next
  case (Cons c cs)
  then show ?case by (cases c) (simp split: prod.splits)
qed

lemma fake_calls_past_end:
  assumes "int (length (FakeChatModel.responses self)) \<le> idx self"
  shows "FakeChatModel_calls cs self = (replicate (length cs) (Inl IndexError), self)"
proof (induction cs)
  case Nil
  show ?case by simp
next
  case (Cons c cs)
  then show ?case by (cases c) (simp add: fake_generate_past_end [OF assms])
qed

lemma mock_calls_past_end:
  assumes "int (length (responses self)) \<le> current_index self"
  shows "MockChatModel_calls cs self = (replicate (length cs) (mock_reply no_more_responses), self)"
proof (induction cs)
  case Nil
  show ?case by simp
next
  case (Cons c cs)
  then show ?case by (cases c) (simp add: mock_generate_past_end [OF assms])
qed

section \<open>What a call can change\<close>

text \<open>Every call ends in one of the listed ways, for any object and any arguments.\<close>

lemma fake_generate_cases:
  "(\<exists>m. FakeChatModel_generate self messages stop run_manager kwargs =
          (fake_reply m, self\<lparr>idx := idx self + 1\<rparr>)) \<or>
   FakeChatModel_generate self messages stop run_manager kwargs = (Inl IndexError, self)"
  by (cases "getitem (FakeChatModel.responses self) (idx self)")
     (simp_all add: FakeChatModel_generate_def error.exhaust [of _ "_ = IndexError"])

lemma mock_generate_cases:
  "(\<exists>s. MockChatModel_generate self messages stop run_manager kwargs =
          (mock_reply s, self\<lparr>current_index := current_index self + 1\<rparr>)) \<or>
   MockChatModel_generate self messages stop run_manager kwargs =
     (mock_reply no_more_responses, self) \<or>
   MockChatModel_generate self messages stop run_manager kwargs = (Inl IndexError, self)"
  by (cases "getitem (responses self) (current_index self)")
     (simp_all add: MockChatModel_generate_def error.exhaust [of _ "_ = IndexError"])

lemma fake_generate_frame:
  "FakeChatModel.responses (snd (FakeChatModel_generate self messages stop run_manager kwargs)) =
     FakeChatModel.responses self \<and>
   FakeChatModel.more (snd (FakeChatModel_generate self messages stop run_manager kwargs)) =
     FakeChatModel.more self \<and>
   idx self \<le> idx (snd (FakeChatModel_generate self messages stop run_manager kwargs))"
  using fake_generate_cases [of self messages stop run_manager kwargs] by auto

lemma mock_generate_frame:
  "responses (snd (MockChatModel_generate self messages stop run_manager kwargs)) =
     responses self \<and>
   MockChatModel.more (snd (MockChatModel_generate self messages stop run_manager kwargs)) =
     MockChatModel.more self \<and>
   current_index self \<le>
     current_index (snd (MockChatModel_generate self messages stop run_manager kwargs))"
  using mock_generate_cases [of self messages stop run_manager kwargs] by auto

lemma fake_calls_frame:
  "FakeChatModel.responses (snd (FakeChatModel_calls cs self)) = FakeChatModel.responses self \<and>
   FakeChatModel.more (snd (FakeChatModel_calls cs self)) = FakeChatModel.more self \<and>
   idx self \<le> idx (snd (FakeChatModel_calls cs self))"
proof (induction cs arbitrary: self)
  case Nil
  show ?case by simp
next
  case (Cons c cs)
  obtain messages stop run_manager kwargs where c: "c = (messages, stop, run_manager, kwargs)"
    by (cases c) auto
  obtain r self' where g: "FakeChatModel_generate self messages stop run_manager kwargs = (r, self')"
    by (cases "FakeChatModel_generate self messages stop run_manager kwargs") auto
  from fake_generate_frame [of self messages stop run_manager kwargs] g
  have one: "FakeChatModel.responses self' = FakeChatModel.responses self"
    "FakeChatModel.more self' = FakeChatModel.more self" "idx self \<le> idx self'"
    by simp_all
  from Cons.IH [of self'] one show ?case
    by (auto simp: c g split: prod.splits)
qed

lemma mock_calls_frame:
  "responses (snd (MockChatModel_calls cs self)) = responses self \<and>
   MockChatModel.more (snd (MockChatModel_calls cs self)) = MockChatModel.more self \<and>
   current_index self \<le> current_index (snd (MockChatModel_calls cs self))"
proof (induction cs arbitrary: self)
  case Nil
  show ?case by simp
next
  case (Cons c cs)
  obtain messages stop run_manager kwargs where c: "c = (messages, stop, run_manager, kwargs)"
    by (cases c) auto
  obtain r self' where g: "MockChatModel_generate self messages stop run_manager kwargs = (r, self')"
    by (cases "MockChatModel_generate self messages stop run_manager kwargs") auto
  from mock_generate_frame [of self messages stop run_manager kwargs] g
  have one: "responses self' = responses self"
    "MockChatModel.more self' = MockChatModel.more self" "current_index self \<le> current_index self'"
    by simp_all
  from Cons.IH [of self'] one show ?case
    by (auto simp: c g split: prod.splits)
qed

section \<open>Calls through references\<close>

lemma call_method_allocated:
  assumes "a < length h"
  shows "call_method a m h = Some (fst (m (h ! a)), h[a := snd (m (h ! a))])"
  using assms by (simp add: call_method_def split: prod.splits)

lemma call_method_elsewhere:
  assumes "call_method a m h = Some (r, h')" and "b \<noteq> a"
  shows "h' ! b = h ! b"
  using assms by (auto simp: call_method_def split: if_splits prod.splits)

text \<open>Neither model reads the arguments of a call.\<close>

lemma fake_generate_ignores_arguments:
  "FakeChatModel_generate self messages stop run_manager kwargs =
   FakeChatModel_generate self messages' stop' run_manager' kwargs'"
  by (simp add: FakeChatModel_generate_def)

lemma mock_generate_ignores_arguments:
  "MockChatModel_generate self messages stop run_manager kwargs =
   MockChatModel_generate self messages' stop' run_manager' kwargs'"
  by (simp add: MockChatModel_generate_def)

lemma fake_invoke_binding:
  "FakeChatModel_invoke (RunnableBinding a kw) messages stop run_manager h =
   FakeChatModel_invoke (Model a) messages stop run_manager h"
  by (simp add: FakeChatModel_invoke_def FakeChatModel_generate_def)

lemma fake_invokes_binding:
  "FakeChatModel_invokes (RunnableBinding a kw) cs h = FakeChatModel_invokes (Model a) cs h"
proof (induction cs arbitrary: h)
  case Nil
  show ?case by simp
next
  case (Cons c cs)
  then show ?case by (cases c) (simp add: fake_invoke_binding split: option.splits)
qed

text \<open>Calls through the reference of an allocated object are calls on that object, written
  back in place.\<close>

lemma fake_invokes_on_object:
  assumes "a < length h"
  shows "FakeChatModel_invokes (Model a) cs h =
           Some (fst (FakeChatModel_calls (map (\<lambda>(m, s, c). (m, s, c, [] :: bound_kwargs)) cs) (h ! a)),
                 h[a := snd (FakeChatModel_calls (map (\<lambda>(m, s, c). (m, s, c, [] :: bound_kwargs)) cs) (h ! a))])"
  using assms
proof (induction cs arbitrary: h)
  case Nil
  then show ?case by simp
next
  case (Cons c cs)
  obtain m s cb where c: "c = (m, s, cb)"
    by (cases c) auto
  let ?g = "FakeChatModel_generate (h ! a) m s cb ([] :: bound_kwargs)"
  let ?h' = "h[a := snd ?g]"
  have one: "FakeChatModel_invoke (Model a) m s cb h = Some (fst ?g, ?h')"
    using Cons.prems by (simp add: FakeChatModel_invoke_def call_method_allocated)
  have len: "a < length ?h'"
    using Cons.prems by simp
  have at: "?h' ! a = snd ?g"
    using Cons.prems by simp
  show ?case
    using Cons.IH [OF len] one at by (simp add: c split: prod.splits)
qed

lemma mock_invokes_on_object:
  assumes "a < length h"
  shows "MockChatModel_invokes (Model a) cs h =
           Some (fst (MockChatModel_calls (map (\<lambda>(m, s, c). (m, s, c, [] :: bound_kwargs)) cs) (h ! a)),
                 h[a := snd (MockChatModel_calls (map (\<lambda>(m, s, c). (m, s, c, [] :: bound_kwargs)) cs) (h ! a))])"
  using assms
proof (induction cs arbitrary: h)
  case Nil
  then show ?case by simp
next
  case (Cons c cs)
  obtain m s cb where c: "c = (m, s, cb)"
    by (cases c) auto
  let ?g = "MockChatModel_generate (h ! a) m s cb ([] :: bound_kwargs)"
  let ?h' = "h[a := snd ?g]"
  have one: "MockChatModel_invoke (Model a) m s cb h = Some (fst ?g, ?h')"
    using Cons.prems by (simp add: MockChatModel_invoke_def call_method_allocated)
  have len: "a < length ?h'"
    using Cons.prems by simp
  have at: "?h' ! a = snd ?g"
    using Cons.prems by simp
  show ?case
    using Cons.IH [OF len] one at by (simp add: c split: prod.splits)
qed

section \<open>The replay contract\<close>

text \<open>
  C1. On a freshly constructed model with a script of N responses, N calls return the
  script entries in order, one per call, whatever arguments (conversation history, stop
  words, callback manager, keyword arguments) each call is given. The fail-fast model
  returns the entries themselves, the fallback model each string as the content of an
  AI message.
\<close>

theorem first_calls_replay_script:
  fixes rs :: "'m list" and ss :: "string list"
    and cs :: "('m list \<times> string list option \<times> 'cb option \<times> 'kw) list"
    and ds :: "('h list \<times> string list option \<times> 'cb option \<times> 'kw) list"
  assumes "length cs = length rs" and "length ds = length ss"
  shows "fst (FakeChatModel_calls cs (FakeChatModel_init rs None)) = map fake_reply rs \<and>
         fst (MockChatModel_calls ds (MockChatModel_init ss)) = map mock_reply ss"
proof
  let ?a = "FakeChatModel_init rs None"
  have "0 \<le> idx ?a" and "idx ?a + int (length cs) \<le> int (length (FakeChatModel.responses ?a))"
    using assms(1) by (simp_all add: FakeChatModel_init_def)
  from fake_calls_replay [OF this]
  show "fst (FakeChatModel_calls cs ?a) = map fake_reply rs"
    using assms(1) by (simp add: FakeChatModel_init_def)
next
  let ?b = "MockChatModel_init ss"
  have "0 \<le> current_index ?b"
    and "current_index ?b + int (length ds) \<le> int (length (responses ?b))"
    using assms(2) by (simp_all add: MockChatModel_init_def)
  from mock_calls_replay [OF this]
  show "fst (MockChatModel_calls ds ?b) = map mock_reply ss"
    using assms(2) by (simp add: MockChatModel_init_def)
qed

theorem first_calls_replay_script_witness:
  "length [([], None, None, ()), ([AIMessage ''hi''], Some [''x''], Some (), ())]
     = length [AIMessage ''r0'', AIMessage ''r1''] \<and>
   length [([''h''], None, None, ()), ([], None, Some (), ())] = length [''s0'', ''s1''] \<and>
   fst (FakeChatModel_calls [([], None, None, ()), ([AIMessage ''hi''], Some [''x''], Some (), ())]
          (FakeChatModel_init [AIMessage ''r0'', AIMessage ''r1''] None))
     = [fake_reply (AIMessage ''r0''), fake_reply (AIMessage ''r1'')] \<and>
   fst (MockChatModel_calls [([''h''], None, None, ()), ([], None, Some (), ())]
          (MockChatModel_init [''s0'', ''s1'']))
     = [mock_reply ''s0'', mock_reply ''s1'']"
  using first_calls_replay_script
    [of "[([], None, None, ()), ([AIMessage ''hi''], Some [''x''], Some (), ())]"
        "[AIMessage ''r0'', AIMessage ''r1'']"
        "[([''h''], None, None, ()), ([], None, Some (), ())]"
        "[''s0'', ''s1'']"]
  by simp

text \<open>
  C2. After the N calls that use up a script of N responses, one more call does not replay
  an entry: the fail-fast model raises IndexError (the script is exhausted), the fallback
  model returns its fixed sentence, which is the same for every script.
\<close>

theorem call_after_last_response:
  fixes rs :: "'m list" and ss :: "string list"
    and cs :: "('m list \<times> string list option \<times> 'cb option \<times> 'kw) list"
    and ds :: "('h list \<times> string list option \<times> 'cb option \<times> 'kw) list"
  assumes "length cs = length rs" and "length ds = length ss"
  shows "fst (FakeChatModel_calls (cs @ [c]) (FakeChatModel_init rs None)) =
           map fake_reply rs @ [Inl IndexError] \<and>
         fst (MockChatModel_calls (ds @ [d]) (MockChatModel_init ss)) =
           map mock_reply ss @ [mock_reply no_more_responses]"
proof
  let ?a = "FakeChatModel_init rs None"
  let ?a' = "?a\<lparr>idx := int (length rs)\<rparr>"
  have "0 \<le> idx ?a" and "idx ?a + int (length cs) \<le> int (length (FakeChatModel.responses ?a))"
    using assms(1) by (simp_all add: FakeChatModel_init_def)
  from fake_calls_replay [OF this]
  have used: "FakeChatModel_calls cs ?a = (map fake_reply rs, ?a')"
    using assms(1) by (simp add: FakeChatModel_init_def)
  have "int (length (FakeChatModel.responses ?a')) \<le> idx ?a'"
    by (simp add: FakeChatModel_init_def)
  from fake_calls_past_end [OF this, of "[c]"]
  have "FakeChatModel_calls [c] ?a' = ([Inl IndexError], ?a')"
    by simp
  with used show "fst (FakeChatModel_calls (cs @ [c]) ?a) = map fake_reply rs @ [Inl IndexError]"
    by (simp add: fake_calls_append)
next
  let ?b = "MockChatModel_init ss"
  let ?b' = "?b\<lparr>current_index := int (length ss)\<rparr>"
  have "0 \<le> current_index ?b"
    and "current_index ?b + int (length ds) \<le> int (length (responses ?b))"
    using assms(2) by (simp_all add: MockChatModel_init_def)
  from mock_calls_replay [OF this]
  have used: "MockChatModel_calls ds ?b = (map mock_reply ss, ?b')"
    using assms(2) by (simp add: MockChatModel_init_def)
  have "int (length (responses ?b')) \<le> current_index ?b'"
    by (simp add: MockChatModel_init_def)
  from mock_calls_past_end [OF this, of "[d]"]
  have "MockChatModel_calls [d] ?b' = ([mock_reply no_more_responses], ?b')"
    by simp
  with used show "fst (MockChatModel_calls (ds @ [d]) ?b) =
                    map mock_reply ss @ [mock_reply no_more_responses]"
    by (simp add: mock_calls_append)
qed

theorem call_after_last_response_witness:
  "length [([], None, Some (), ()), ([AIMessage ''again''], None, None, ())]
     = length [AIMessage ''r0'', AIMessage ''r1''] \<and>
   length [([''h''], None, Some (), ())] = length [''s0''] \<and>
   fst (FakeChatModel_calls
          ([([], None, Some (), ()), ([AIMessage ''again''], None, None, ())] @ [([], None, None, ())])
          (FakeChatModel_init [AIMessage ''r0'', AIMessage ''r1''] None))
     = [fake_reply (AIMessage ''r0''), fake_reply (AIMessage ''r1''), Inl IndexError] \<and>
   fst (MockChatModel_calls ([([''h''], None, Some (), ())] @ [([], None, None, ())])
          (MockChatModel_init [''s0'']))
     = [mock_reply ''s0'', mock_reply ''I don't have more responses configured.'']"
  using call_after_last_response
    [of "[([], None, Some (), ()), ([AIMessage ''again''], None, None, ())]"
        "[AIMessage ''r0'', AIMessage ''r1'']"
        "[([''h''], None, Some (), ())]" "[''s0'']"
        "([], None, None, ())" "([], None, None, ())"]
  by (simp add: no_more_responses_def)

section \<open>The cursor\<close>

text \<open>
  C3, as the code has it. A model constructed from a response sequence alone has its cursor
  at 0, and calls never move a cursor back. A call made with the cursor inside the script
  returns the entry at the cursor and moves the cursor by one, so k calls on a fresh model
  with at least k responses leave the cursor at k. A call made with the cursor at or past
  the end leaves the cursor where it is: the fail-fast model raises, the fallback model
  returns its fixed sentence as an ordinary result.
\<close>

theorem cursor_discipline:
  fixes fake fake' :: "('m, 'z) FakeChatModel_scheme" and mock mock' :: "'y MockChatModel_scheme"
    and rs :: "'m list" and ss :: "string list"
    and cs cs' :: "('m list \<times> string list option \<times> 'cb option \<times> 'kw) list"
    and ds ds' :: "('h list \<times> string list option \<times> 'cb option \<times> 'kw) list"
  shows
    "idx (FakeChatModel_init rs None) = 0 \<and> current_index (MockChatModel_init ss) = 0 \<and>
     idx fake \<le> idx (snd (FakeChatModel_calls cs fake)) \<and>
     current_index mock \<le> current_index (snd (MockChatModel_calls ds mock)) \<and>
     (0 \<le> idx fake \<and> idx fake < int (length (FakeChatModel.responses fake)) \<longrightarrow>
        FakeChatModel_generate fake messages stop run_manager kwargs =
          (fake_reply (FakeChatModel.responses fake ! nat (idx fake)), fake\<lparr>idx := idx fake + 1\<rparr>)) \<and>
     (0 \<le> current_index mock \<and> current_index mock < int (length (responses mock)) \<longrightarrow>
        MockChatModel_generate mock history stop run_manager kwargs =
          (mock_reply (responses mock ! nat (current_index mock)),
           mock\<lparr>current_index := current_index mock + 1\<rparr>)) \<and>
     (length cs' \<le> length rs \<longrightarrow>
        idx (snd (FakeChatModel_calls cs' (FakeChatModel_init rs None))) = int (length cs')) \<and>
     (length ds' \<le> length ss \<longrightarrow>
        current_index (snd (MockChatModel_calls ds' (MockChatModel_init ss))) = int (length ds')) \<and>
     (int (length (FakeChatModel.responses fake')) \<le> idx fake' \<longrightarrow>
        FakeChatModel_generate fake' messages stop run_manager kwargs = (Inl IndexError, fake')) \<and>
     (int (length (responses mock')) \<le> current_index mock' \<longrightarrow>
        MockChatModel_generate mock' history stop run_manager kwargs =
          (mock_reply no_more_responses, mock'))"
proof -
  have start: "idx (FakeChatModel_init rs None) = 0" "current_index (MockChatModel_init ss) = 0"
    by (simp_all add: FakeChatModel_init_def MockChatModel_init_def)
  have mono: "idx fake \<le> idx (snd (FakeChatModel_calls cs fake))"
    "current_index mock \<le> current_index (snd (MockChatModel_calls ds mock))"
    using fake_calls_frame [of cs fake] mock_calls_frame [of ds mock] by simp_all
  have count_fake: "idx (snd (FakeChatModel_calls cs' (FakeChatModel_init rs None))) = int (length cs')"
    if "length cs' \<le> length rs"
  proof -
    let ?a = "FakeChatModel_init rs None"
    have "0 \<le> idx ?a" and "idx ?a + int (length cs') \<le> int (length (FakeChatModel.responses ?a))"
      using that by (simp_all add: FakeChatModel_init_def)
    from fake_calls_replay [OF this] show ?thesis
      by (simp add: FakeChatModel_init_def)
  qed
  have count_mock: "current_index (snd (MockChatModel_calls ds' (MockChatModel_init ss))) = int (length ds')"
    if "length ds' \<le> length ss"
  proof -
    let ?b = "MockChatModel_init ss"
    have "0 \<le> current_index ?b"
      and "current_index ?b + int (length ds') \<le> int (length (responses ?b))"
      using that by (simp_all add: MockChatModel_init_def)
    from mock_calls_replay [OF this] show ?thesis
      by (simp add: MockChatModel_init_def)
  qed
  show ?thesis
    using start mono count_fake count_mock
      fake_generate_inside [of fake messages stop run_manager kwargs]
      mock_generate_inside [of mock history stop run_manager kwargs]
      fake_generate_past_end [of fake' messages stop run_manager kwargs]
      mock_generate_past_end [of mock' history stop run_manager kwargs]
    by blast
qed

theorem cursor_discipline_witness:
  "(0 \<le> idx (FakeChatModel_init [AIMessage ''r0'', AIMessage ''r1''] (Some 1)) \<and>
    idx (FakeChatModel_init [AIMessage ''r0'', AIMessage ''r1''] (Some 1))
      < int (length (FakeChatModel.responses (FakeChatModel_init [AIMessage ''r0'', AIMessage ''r1''] (Some 1))))) \<and>
   FakeChatModel_generate (FakeChatModel_init [AIMessage ''r0'', AIMessage ''r1''] (Some 1))
       [] None (Some ()) ()
     = (fake_reply (AIMessage ''r1''), FakeChatModel_init [AIMessage ''r0'', AIMessage ''r1''] (Some 2)) \<and>
   (0 \<le> current_index (MockChatModel_init [''s0'']) \<and>
    current_index (MockChatModel_init [''s0'']) < int (length (responses (MockChatModel_init [''s0''])))) \<and>
   MockChatModel_generate (MockChatModel_init [''s0'']) [''h''] None (Some ()) ()
     = (mock_reply ''s0'', \<lparr>responses = [''s0''], current_index = 1\<rparr>) \<and>
   length [([], None, Some (), ()), ([AIMessage ''x''], None, None, ())]
     \<le> length [AIMessage ''r0'', AIMessage ''r1'', AIMessage ''r2''] \<and>
   idx (snd (FakeChatModel_calls [([], None, Some (), ()), ([AIMessage ''x''], None, None, ())]
               (FakeChatModel_init [AIMessage ''r0'', AIMessage ''r1'', AIMessage ''r2''] None))) = 2 \<and>
   length [([''h''], None, Some (), ())] \<le> length [''s0''] \<and>
   current_index (snd (MockChatModel_calls [([''h''], None, Some (), ())] (MockChatModel_init [''s0'']))) = 1 \<and>
   int (length (FakeChatModel.responses (FakeChatModel_init [AIMessage ''r0''] (Some 1))))
     \<le> idx (FakeChatModel_init [AIMessage ''r0''] (Some 1)) \<and>
   FakeChatModel_generate (FakeChatModel_init [AIMessage ''r0''] (Some 1)) [] None (Some ()) ()
     = (Inl IndexError, FakeChatModel_init [AIMessage ''r0''] (Some 1)) \<and>
   int (length (responses (MockChatModel_init []))) \<le> current_index (MockChatModel_init []) \<and>
   MockChatModel_generate (MockChatModel_init []) [''h''] None (Some ()) ()
     = (mock_reply ''I don't have more responses configured.'', MockChatModel_init [])"
  using cursor_discipline
    [where fake = "FakeChatModel_init [AIMessage ''r0'', AIMessage ''r1''] (Some 1)"
       and mock = "MockChatModel_init [''s0'']"
       and fake' = "FakeChatModel_init [AIMessage ''r0''] (Some 1)"
       and mock' = "MockChatModel_init []"
       and rs = "[AIMessage ''r0'', AIMessage ''r1'', AIMessage ''r2'']" and ss = "[''s0'']"
       and cs = "[]" and ds = "[]"
       and cs' = "[([], None, Some (), ()), ([AIMessage ''x''], None, None, ())]"
       and ds' = "[([''h''], None, Some (), ())]"
       and messages = "[]" and history = "[''h'']" and stop = None
       and run_manager = "Some ()" and kwargs = "()"]
  by (simp add: FakeChatModel_init_def MockChatModel_init_def no_more_responses_def)

text \<open>
  C3 as the spec words it has every call move the cursor by one, and the cursor count the
  calls that returned. The fallback model with an empty script returns an ordinary result
  from its first call and leaves the cursor at 0.
\<close>

theorem every_call_advances_counterexample:
  "fst (MockChatModel_generate (MockChatModel_init []) [''hello''] None (Some ()) ())
     = mock_reply ''I don't have more responses configured.'' \<and>
   current_index (snd (MockChatModel_generate (MockChatModel_init []) [''hello''] None (Some ()) ()))
     = 0 \<and>
   current_index (snd (MockChatModel_generate (MockChatModel_init []) [''hello''] None (Some ()) ()))
     \<noteq> current_index (MockChatModel_init []) + 1"
  by (simp add: MockChatModel_generate_def MockChatModel_init_def no_more_responses_def)

section \<open>Construction\<close>

text \<open>
  C4, as the code has it. Neither class checks its response list: constructing a model with
  an empty script gives an object like any other. The failure comes with the first call of
  the fail-fast model (IndexError, the object unchanged, so on every call after it too);
  the fallback model never fails and answers every call with its fixed sentence.
\<close>

theorem empty_script_shows_at_first_call:
  "FakeChatModel_generate (FakeChatModel_init [] None) messages stop run_manager kwargs
     = (Inl IndexError, FakeChatModel_init [] None) \<and>
   MockChatModel_generate (MockChatModel_init []) history stop run_manager kwargs
     = (mock_reply no_more_responses, MockChatModel_init [])"
  by (simp add: fake_generate_past_end mock_generate_past_end
      FakeChatModel_init_def MockChatModel_init_def)

text \<open>
  C4 as the spec words it has the construction fail. Both constructors return a model for
  the empty list, with the cursor at 0; the fail-fast model fails only when it is called.
\<close>

theorem empty_script_constructs_counterexample:
  "idx (FakeChatModel_init ([] :: AIMessage list) None) = 0 \<and>
   FakeChatModel.responses (FakeChatModel_init ([] :: AIMessage list) None) = [] \<and>
   MockChatModel_init [] = \<lparr>responses = [], current_index = 0\<rparr> \<and>
   fst (FakeChatModel_generate (FakeChatModel_init ([] :: AIMessage list) None) [] None (Some ()) ())
     = Inl IndexError"
  by (simp add: FakeChatModel_init_def MockChatModel_init_def FakeChatModel_generate_def getitem_def)

section \<open>Tool binding\<close>

text \<open>
  C5. \<open>bind_tools\<close> changes no object, whatever tools it is given, and calls made through
  what it returns are calls on the model: the fallback model returns itself, the fail-fast
  model a binding whose keyword arguments its generate never reads. So the calls through
  the handle replay the script of the object exactly as calls on the object do.
\<close>

theorem bind_tools_keeps_replay:
  fixes h :: "('m, 'z) FakeChatModel_scheme heap" and g :: "'y MockChatModel_scheme heap"
    and cs :: "('m list \<times> string list option \<times> 'cb option) list"
    and ds :: "('h list \<times> string list option \<times> 'cb option) list"
  assumes "a < length h" and "b < length g"
  shows "snd (FakeChatModel_bind_tools a tools kwargs h) = h \<and>
         FakeChatModel_invokes (fst (FakeChatModel_bind_tools a tools kwargs h)) cs h =
           FakeChatModel_invokes (Model a) cs h \<and>
         FakeChatModel_invokes (Model a) cs h =
           Some (fst (FakeChatModel_calls (map (\<lambda>(m, s, c). (m, s, c, [] :: bound_kwargs)) cs) (h ! a)),
                 h[a := snd (FakeChatModel_calls (map (\<lambda>(m, s, c). (m, s, c, [] :: bound_kwargs)) cs) (h ! a))]) \<and>
         MockChatModel_bind_tools b tools kwargs g = (Model b, g) \<and>
         MockChatModel_invokes (fst (MockChatModel_bind_tools b tools kwargs g)) ds g =
           MockChatModel_invokes (Model b) ds g \<and>
         MockChatModel_invokes (Model b) ds g =
           Some (fst (MockChatModel_calls (map (\<lambda>(m, s, c). (m, s, c, [] :: bound_kwargs)) ds) (g ! b)),
                 g[b := snd (MockChatModel_calls (map (\<lambda>(m, s, c). (m, s, c, [] :: bound_kwargs)) ds) (g ! b))])"
proof -
  have "snd (FakeChatModel_bind_tools a tools kwargs h) = h"
    by (simp add: FakeChatModel_bind_tools_def)
  moreover
  have "FakeChatModel_invokes (fst (FakeChatModel_bind_tools a tools kwargs h)) cs h =
          FakeChatModel_invokes (Model a) cs h"
    by (simp add: FakeChatModel_bind_tools_def fake_invokes_binding)
  moreover
  have "MockChatModel_bind_tools b tools kwargs g = (Model b, g)"
    by (simp add: MockChatModel_bind_tools_def)
  ultimately show ?thesis
    using fake_invokes_on_object [OF assms(1), of cs] mock_invokes_on_object [OF assms(2), of ds]
    by simp
qed

theorem bind_tools_keeps_replay_witness:
  "(0::nat) < length [FakeChatModel_init [AIMessage ''r0'', AIMessage ''r1''] None] \<and>
   (0::nat) < length [MockChatModel_init [''s0'']] \<and>
   FakeChatModel_bind_tools 0 [BaseTool ''add'', OtherTool ''web_search''] ()
       [FakeChatModel_init [AIMessage ''r0'', AIMessage ''r1''] None]
     = (RunnableBinding 0 [(''tools'', [[(''name'', ''add'')], [(''name'', ''web_search'')]])],
        [FakeChatModel_init [AIMessage ''r0'', AIMessage ''r1''] None]) \<and>
   FakeChatModel_invokes
       (RunnableBinding 0 [(''tools'', [[(''name'', ''add'')], [(''name'', ''web_search'')]])])
       [([], None, Some ()), ([AIMessage ''x''], None, None)]
       [FakeChatModel_init [AIMessage ''r0'', AIMessage ''r1''] None]
     = Some ([fake_reply (AIMessage ''r0''), fake_reply (AIMessage ''r1'')],
             [FakeChatModel_init [AIMessage ''r0'', AIMessage ''r1''] (Some 2)]) \<and>
   MockChatModel_invokes (fst (MockChatModel_bind_tools 0 [BaseTool ''add''] () [MockChatModel_init [''s0'']]))
       [([''h''], None, Some ()), ([], None, None)] [MockChatModel_init [''s0'']]
     = Some ([mock_reply ''s0'', mock_reply ''I don't have more responses configured.''],
             [\<lparr>responses = [''s0''], current_index = 1\<rparr>])"
  using bind_tools_keeps_replay
    [where a = 0 and b = 0
       and h = "[FakeChatModel_init [AIMessage ''r0'', AIMessage ''r1''] None]"
       and g = "[MockChatModel_init [''s0'']]"
       and tools = "[BaseTool ''add'', OtherTool ''web_search'']" and kwargs = "()"
       and cs = "[([], None, Some ()), ([AIMessage ''x''], None, None)]"
       and ds = "[([''h''], None, Some ()), ([], None, None)]"]
  by (simp add: FakeChatModel_bind_tools_def MockChatModel_bind_tools_def
      FakeChatModel_generate_def MockChatModel_generate_def getitem_def
      FakeChatModel_init_def MockChatModel_init_def no_more_responses_def)

section \<open>Independent instances\<close>

text \<open>
  C6. Two models constructed one after the other, A from [X, Y] and B from [Z], called in
  the order A, B, A with any arguments, return X, then Z, then Y. A call through one
  reference changes no other object: B is as it was after each call on A, and A after the
  call on B.
\<close>

theorem independent_cursors:
  fixes X Y Z :: 'm and h0 :: "'m FakeChatModel heap"
    and k1 k2 k3 :: 'kw and r1 r2 r3 :: "'cb option"
  assumes "new_object (FakeChatModel_init [X, Y] None) h0 = (A, h1)"
    and "new_object (FakeChatModel_init [Z] None) h1 = (B, h2)"
  shows "(\<exists>h3 h4 h5.
            call_method A (\<lambda>self. FakeChatModel_generate self m1 s1 r1 k1) h2 = Some (fake_reply X, h3) \<and>
            call_method B (\<lambda>self. FakeChatModel_generate self m2 s2 r2 k2) h3 = Some (fake_reply Z, h4) \<and>
            call_method A (\<lambda>self. FakeChatModel_generate self m3 s3 r3 k3) h4 = Some (fake_reply Y, h5) \<and>
            h3 ! B = h2 ! B \<and> h4 ! A = h3 ! A \<and> h5 ! B = h4 ! B) \<and>
         (call_method a f h = Some (r, h') \<and> b \<noteq> a \<longrightarrow> h' ! b = h ! b)"
proof -
  let ?a0 = "FakeChatModel_init [X, Y] None"
  let ?b0 = "FakeChatModel_init [Z] None"
  from assms have A: "A = length h0" and h1: "h1 = h0 @ [?a0]"
    and B: "B = Suc (length h0)" and h2: "h2 = h0 @ [?a0, ?b0]"
    by (auto simp: new_object_def)
  let ?a1 = "?a0\<lparr>idx := 1\<rparr>"
  let ?a2 = "?a0\<lparr>idx := 2\<rparr>"
  let ?h3 = "h0 @ [?a1, ?b0]"
  let ?h4 = "h0 @ [?a1, ?b0\<lparr>idx := 1\<rparr>]"
  let ?h5 = "h0 @ [?a2, ?b0\<lparr>idx := 1\<rparr>]"
  have c1: "call_method A (\<lambda>self. FakeChatModel_generate self m1 s1 r1 k1) h2 = Some (fake_reply X, ?h3)"
    by (simp add: A h2 call_method_def FakeChatModel_generate_def getitem_def FakeChatModel_init_def)
  have c2: "call_method B (\<lambda>self. FakeChatModel_generate self m2 s2 r2 k2) ?h3 = Some (fake_reply Z, ?h4)"
    by (simp add: B call_method_def FakeChatModel_generate_def getitem_def FakeChatModel_init_def
        nth_append list_update_append)
  have c3: "call_method A (\<lambda>self. FakeChatModel_generate self m3 s3 r3 k3) ?h4 = Some (fake_reply Y, ?h5)"
    by (simp add: A call_method_def FakeChatModel_generate_def getitem_def FakeChatModel_init_def)
  have same: "?h3 ! B = h2 ! B" "?h4 ! A = ?h3 ! A" "?h5 ! B = ?h4 ! B"
    by (simp_all add: A B h2 nth_append)
  have apart: "call_method a f h = Some (r, h') \<and> b \<noteq> a \<longrightarrow> h' ! b = h ! b"
    using call_method_elsewhere [of a f h r h' b] by simp
  have run: "\<exists>h3 h4 h5.
      call_method A (\<lambda>self. FakeChatModel_generate self m1 s1 r1 k1) h2 = Some (fake_reply X, h3) \<and>
      call_method B (\<lambda>self. FakeChatModel_generate self m2 s2 r2 k2) h3 = Some (fake_reply Z, h4) \<and>
      call_method A (\<lambda>self. FakeChatModel_generate self m3 s3 r3 k3) h4 = Some (fake_reply Y, h5) \<and>
      h3 ! B = h2 ! B \<and> h4 ! A = h3 ! A \<and> h5 ! B = h4 ! B"
    apply (rule exI [where x = ?h3])
    apply (rule exI [where x = ?h4])
    apply (rule exI [where x = ?h5])
    apply (intro conjI c1 c2 c3 same)
    done
  from run apart show ?thesis
    by (rule conjI)
qed

theorem independent_cursors_witness:
  "new_object (FakeChatModel_init [AIMessage ''X'', AIMessage ''Y''] None) [] =
     (0, [FakeChatModel_init [AIMessage ''X'', AIMessage ''Y''] None]) \<and>
   new_object (FakeChatModel_init [AIMessage ''Z''] None)
       [FakeChatModel_init [AIMessage ''X'', AIMessage ''Y''] None] =
     (1, [FakeChatModel_init [AIMessage ''X'', AIMessage ''Y''] None,
          FakeChatModel_init [AIMessage ''Z''] None]) \<and>
   (\<exists>h3 h4 h5.
      call_method 0 (\<lambda>self. FakeChatModel_generate self [] None (Some ()) ())
          [FakeChatModel_init [AIMessage ''X'', AIMessage ''Y''] None,
           FakeChatModel_init [AIMessage ''Z''] None]
        = Some (fake_reply (AIMessage ''X''), h3) \<and>
      call_method 1 (\<lambda>self. FakeChatModel_generate self [AIMessage ''h''] None (Some ()) ()) h3
        = Some (fake_reply (AIMessage ''Z''), h4) \<and>
      call_method 0 (\<lambda>self. FakeChatModel_generate self [] (Some [''stop'']) (None :: unit option) ()) h4
        = Some (fake_reply (AIMessage ''Y''), h5) \<and>
      h3 ! 1 = [FakeChatModel_init [AIMessage ''X'', AIMessage ''Y''] None,
                FakeChatModel_init [AIMessage ''Z''] None] ! 1 \<and>
      h4 ! 0 = h3 ! 0 \<and> h5 ! 1 = h4 ! 1) \<and>
   (call_method 0 (\<lambda>self. FakeChatModel_generate self [] None (Some ()) ())
        [FakeChatModel_init [AIMessage ''X'', AIMessage ''Y''] None,
         FakeChatModel_init [AIMessage ''Z''] None]
      = Some (fake_reply (AIMessage ''X''),
              [FakeChatModel_init [AIMessage ''X'', AIMessage ''Y''] (Some 1),
               FakeChatModel_init [AIMessage ''Z''] None]) \<and>
    (1::nat) \<noteq> 0) \<and>
   [FakeChatModel_init [AIMessage ''X'', AIMessage ''Y''] (Some 1),
    FakeChatModel_init [AIMessage ''Z''] None] ! 1
     = [FakeChatModel_init [AIMessage ''X'', AIMessage ''Y''] None,
        FakeChatModel_init [AIMessage ''Z''] None] ! 1"
proof -
  let ?a0 = "FakeChatModel_init [AIMessage ''X'', AIMessage ''Y''] None"
  let ?a1 = "FakeChatModel_init [AIMessage ''X'', AIMessage ''Y''] (Some 1)"
  let ?b0 = "FakeChatModel_init [AIMessage ''Z''] None"
  let ?f = "\<lambda>self :: AIMessage FakeChatModel.
              FakeChatModel_generate self ([] :: AIMessage list) None (Some ()) ()"
  have na: "new_object ?a0 [] = (0, [?a0])"
    by (simp add: new_object_def)
  have nb: "new_object ?b0 [?a0] = (1, [?a0, ?b0])"
    by (simp add: new_object_def)
  have pre: "call_method 0 ?f [?a0, ?b0] = Some (fake_reply (AIMessage ''X''), [?a1, ?b0]) \<and>
             (1::nat) \<noteq> 0"
    by (simp add: call_method_def FakeChatModel_generate_def getitem_def FakeChatModel_init_def)
  note both = independent_cursors [OF na nb,
      where ?m1.0 = "[]" and ?s1.0 = None and ?r1.0 = "Some ()" and ?k1.0 = "()"
        and ?m2.0 = "[AIMessage ''h'']" and ?s2.0 = None and ?r2.0 = "Some ()" and ?k2.0 = "()"
        and ?m3.0 = "[]" and ?s3.0 = "Some [''stop'']" and ?r3.0 = "None :: unit option" and ?k3.0 = "()"
        and a = 0 and b = 1 and f = ?f and h = "[?a0, ?b0]"
        and r = "fake_reply (AIMessage ''X'')" and h' = "[?a1, ?b0]"]
  from both have run: "\<exists>h3 h4 h5.
      call_method 0 (\<lambda>self. FakeChatModel_generate self [] None (Some ()) ()) [?a0, ?b0]
        = Some (fake_reply (AIMessage ''X''), h3) \<and>
      call_method 1 (\<lambda>self. FakeChatModel_generate self [AIMessage ''h''] None (Some ()) ()) h3
        = Some (fake_reply (AIMessage ''Z''), h4) \<and>
      call_method 0 (\<lambda>self. FakeChatModel_generate self [] (Some [''stop'']) (None :: unit option) ()) h4
        = Some (fake_reply (AIMessage ''Y''), h5) \<and>
      h3 ! 1 = [?a0, ?b0] ! 1 \<and> h4 ! 0 = h3 ! 0 \<and> h5 ! 1 = h4 ! 1"
    by (rule conjunct1)
  from both have "call_method 0 ?f [?a0, ?b0] = Some (fake_reply (AIMessage ''X''), [?a1, ?b0]) \<and>
                  (1::nat) \<noteq> 0 \<longrightarrow> [?a1, ?b0] ! 1 = [?a0, ?b0] ! 1"
    by (rule conjunct2)
  from this pre have post: "[?a1, ?b0] ! 1 = [?a0, ?b0] ! 1"
    by (rule mp)
  show ?thesis
    by (intro conjI na nb run post conjunct1 [OF pre] conjunct2 [OF pre])
qed

section \<open>Effects of a call\<close>

text \<open>
  C7. A call changes nothing of the object but the cursor: the object after the call is the
  object before it, or that object with the cursor one further; the response list and all
  the inherited fields are as they were. The method has no other state to act on: its
  outcome and the object are all it returns.
\<close>

theorem generate_changes_cursor_only:
  fixes fake :: "('m, 'z) FakeChatModel_scheme" and mock :: "'y MockChatModel_scheme"
  shows
    "(snd (FakeChatModel_generate fake messages stop run_manager kwargs) = fake \<or>
      snd (FakeChatModel_generate fake messages stop run_manager kwargs) = fake\<lparr>idx := idx fake + 1\<rparr>) \<and>
     FakeChatModel.responses (snd (FakeChatModel_generate fake messages stop run_manager kwargs)) =
       FakeChatModel.responses fake \<and>
     FakeChatModel.more (snd (FakeChatModel_generate fake messages stop run_manager kwargs)) =
       FakeChatModel.more fake \<and>
     (snd (MockChatModel_generate mock history stop run_manager kwargs) = mock \<or>
      snd (MockChatModel_generate mock history stop run_manager kwargs) =
        mock\<lparr>current_index := current_index mock + 1\<rparr>) \<and>
     responses (snd (MockChatModel_generate mock history stop run_manager kwargs)) = responses mock \<and>
     MockChatModel.more (snd (MockChatModel_generate mock history stop run_manager kwargs)) =
       MockChatModel.more mock"
proof -
  have "snd (FakeChatModel_generate fake messages stop run_manager kwargs) = fake \<or>
        snd (FakeChatModel_generate fake messages stop run_manager kwargs) = fake\<lparr>idx := idx fake + 1\<rparr>"
    using fake_generate_cases [of fake messages stop run_manager kwargs] by auto
  moreover
  have "snd (MockChatModel_generate mock history stop run_manager kwargs) = mock \<or>
        snd (MockChatModel_generate mock history stop run_manager kwargs) =
          mock\<lparr>current_index := current_index mock + 1\<rparr>"
    using mock_generate_cases [of mock history stop run_manager kwargs] by auto
  ultimately show ?thesis
    using fake_generate_frame [of fake messages stop run_manager kwargs]
      mock_generate_frame [of mock history stop run_manager kwargs]
    by simp
qed

section \<open>Exhaustion\<close>

text \<open>
  C9. Fallback model: with the cursor at or past the end of the response list, a call
  returns the AI message "I don't have more responses configured." and leaves the object,
  cursor included, as it was; so does every call after it.
\<close>

theorem mock_fallback_is_sticky:
  fixes mock :: "'y MockChatModel_scheme"
  assumes "int (length (responses mock)) \<le> current_index mock"
  shows "MockChatModel_generate mock history stop run_manager kwargs =
           (Inr (ChatResult [ChatGeneration (AIMessage ''I don't have more responses configured.'')]),
            mock) \<and>
         MockChatModel_calls ds mock =
           (replicate (length ds)
              (Inr (ChatResult [ChatGeneration (AIMessage ''I don't have more responses configured.'')])),
            mock)"
  using mock_generate_past_end [OF assms, of history stop run_manager kwargs]
    mock_calls_past_end [OF assms, of ds]
  by (simp add: no_more_responses_def)

theorem mock_fallback_is_sticky_witness:
  "int (length (responses ((MockChatModel_init [''s0''])\<lparr>current_index := 1\<rparr>)))
     \<le> current_index ((MockChatModel_init [''s0''])\<lparr>current_index := 1\<rparr>) \<and>
   MockChatModel_generate ((MockChatModel_init [''s0''])\<lparr>current_index := 1\<rparr>)
       [''h''] None (Some ()) ()
     = (mock_reply ''I don't have more responses configured.'',
        \<lparr>responses = [''s0''], current_index = 1\<rparr>) \<and>
   MockChatModel_calls [([''h''], None, Some (), ()), ([], None, None, ())]
       ((MockChatModel_init [''s0''])\<lparr>current_index := 1\<rparr>)
     = ([mock_reply ''I don't have more responses configured.'',
         mock_reply ''I don't have more responses configured.''],
        \<lparr>responses = [''s0''], current_index = 1\<rparr>)"
proof -
  let ?mock = "(MockChatModel_init [''s0''])\<lparr>current_index := 1\<rparr>"
  have past: "int (length (responses ?mock)) \<le> current_index ?mock"
    by (simp add: MockChatModel_init_def)
  from mock_fallback_is_sticky [OF past, of "[''h'']" None "Some ()" "()"
      "[([''h''], None, Some (), ()), ([], None, None, ())]"] past
  show ?thesis
    by (simp add: MockChatModel_init_def MockChatModel_generate_def no_more_responses_def)
qed

text \<open>
  C10. Fail-fast model: with the cursor at or past the end of the response list, the read
  \<open>responses[idx]\<close> raises IndexError before the increment runs, so the call fails and the
  object, cursor included, is exactly as before the call.
\<close>

theorem fake_failure_is_atomic:
  fixes fake :: "('m, 'z) FakeChatModel_scheme"
  assumes "int (length (FakeChatModel.responses fake)) \<le> idx fake"
  shows "getitem (FakeChatModel.responses fake) (idx fake) = Inl IndexError \<and>
         FakeChatModel_generate fake messages stop run_manager kwargs = (Inl IndexError, fake)"
  using assms by (simp add: getitem_past_end fake_generate_past_end)

theorem fake_failure_is_atomic_witness:
  "int (length (FakeChatModel.responses (FakeChatModel_init [AIMessage ''r0''] (Some 1))))
     \<le> idx (FakeChatModel_init [AIMessage ''r0''] (Some 1)) \<and>
   getitem [AIMessage ''r0''] 1 = Inl IndexError \<and>
   FakeChatModel_generate (FakeChatModel_init [AIMessage ''r0''] (Some 1)) [] None (Some ()) ()
     = (Inl IndexError, FakeChatModel_init [AIMessage ''r0''] (Some 1))"
proof -
  let ?fake = "FakeChatModel_init [AIMessage ''r0''] (Some 1)"
  have past: "int (length (FakeChatModel.responses ?fake)) \<le> idx ?fake"
    by (simp add: FakeChatModel_init_def)
  from fake_failure_is_atomic [OF past, of "[]" None "Some ()" "()"] past
  show ?thesis
    by (simp add: FakeChatModel_init_def)
qed

end
